theory Spec2Isabelle
  imports Main "HOL-Library.Word"
begin

unbundle bit_operations_syntax

section \<open>Common data\<close>

text \<open>
  Go strings are byte sequences and \<open>len\<close> counts bytes; so does \<open>length\<close> on a HOL
  \<open>string\<close>. A \<open>time.Time\<close> is the number of nanoseconds since the Unix epoch and a
  \<open>time.Duration\<close> a number of nanoseconds (the 64-bit range of both is not modelled).
\<close>

type_synonym Time = int
type_synonym Duration = int

definition Second :: Duration where
  "Second = 1000000000"

definition Unix :: "Time \<Rightarrow> int" where
  \<comment> \<open>\<open>t.Unix()\<close>: whole seconds since the epoch, rounded down\<close>
  "Unix t = t div Second"

text \<open>
  \<open>primitive.ObjectID\<close> is \<open>[12]byte\<close>, that is 96 bits; \<open>Hex\<close> prints it as 24
  lower-case hexadecimal digits, most significant first.
\<close>

type_synonym ObjectID = "96 word"

definition IsZero :: "ObjectID \<Rightarrow> bool" where
  "IsZero oid = (oid = 0)"

definition hexdigit :: "nat \<Rightarrow> char" where
  "hexdigit n = (''0123456789abcdef'') ! (n mod 16)"

definition Hex :: "ObjectID \<Rightarrow> string" where
  "Hex oid = map (\<lambda>i. hexdigit (unat (drop_bit (4 * (23 - i)) oid AND 15))) [0..<24]"

text \<open>\<open>strconv.Itoa\<close> and the \<open>%d\<close> verb: decimal digits, with a sign when negative.\<close>

fun decimal :: "nat \<Rightarrow> string" where
  "decimal n =
     (if n < 10 then [hexdigit n] else decimal (n div 10) @ [hexdigit (n mod 10)])"

declare decimal.simps [simp del]

definition Itoa :: "int \<Rightarrow> string" where
  "Itoa i = (if i < 0 then CHR 0x2D # decimal (nat (- i)) else decimal (nat i))"

text \<open>
  What a call may draw from outside its arguments: the clock, the generator of object
  ids and the random source.
\<close>

record env =
  now :: Time
  newObjectID :: ObjectID
  entropy :: string

text \<open>
  Go errors. A package-level \<open>errors.New\<close> value is a sentinel, compared with \<open>==\<close>
  (every sentinel of the repository has its own message, so the message identifies it);
  an error made at the place of failure by \<open>fmt.Errorf\<close> without \<open>%w\<close> is never equal
  to a sentinel, whatever its text; \<open>fmt.Errorf("ctx: %w", e)\<close> wraps \<open>e\<close>, and
  \<open>fmt.Errorf("%w: %v", s, e)\<close> wraps \<open>s\<close> and quotes the text of \<open>e\<close>.
\<close>

datatype error =
    Sentinel string
  | Errorf string
  | Wrap string error
  | WrapQuote error error

fun ErrorText :: "error \<Rightarrow> string" where
  "ErrorText (Sentinel m) = m"
| "ErrorText (Errorf m) = m"
| "ErrorText (Wrap ctx e) = ctx @ '': '' @ ErrorText e"
| "ErrorText (WrapQuote s e) = ErrorText s @ '': '' @ ErrorText e"

fun errors_Is :: "error \<Rightarrow> error \<Rightarrow> bool" where
  "errors_Is (Wrap ctx e) target = (Wrap ctx e = target \<or> errors_Is e target)"
| "errors_Is (WrapQuote s e) target = (WrapQuote s e = target \<or> errors_Is s target)"
| "errors_Is e target = (e = target)"

section \<open>Circle access-control model (internal/domain/models/circle.go)\<close>

type_synonym AccessLevel = string

definition AccessLevelPrivate :: AccessLevel where "AccessLevelPrivate = ''private''"
definition AccessLevelView :: AccessLevel where "AccessLevelView = ''view''"
definition AccessLevelEdit :: AccessLevel where "AccessLevelEdit = ''edit''"
definition AccessLevelAdmin :: AccessLevel where "AccessLevelAdmin = ''admin''"

record CircleMember =
  UserID :: ObjectID
  MemberAccessLevel :: AccessLevel
  InvitedAt :: Time
  AcceptedAt :: "Time option"

record Circle =
  CircleID :: ObjectID
  CircleName :: string
  OwnerID :: ObjectID
  Members :: "CircleMember list"
  CircleCreatedAt :: Time
  CircleUpdatedAt :: Time

fun HasMemberLoop :: "CircleMember list \<Rightarrow> ObjectID \<Rightarrow> bool" where
  "HasMemberLoop [] userID = False"
| "HasMemberLoop (member # rest) userID =
     (if UserID member = userID then True else HasMemberLoop rest userID)"

definition HasMember :: "Circle \<Rightarrow> ObjectID \<Rightarrow> bool" where
  "HasMember c userID = HasMemberLoop (Members c) userID"

fun AccessLevelLoop :: "CircleMember list \<Rightarrow> ObjectID \<Rightarrow> AccessLevel \<times> bool" where
  "AccessLevelLoop [] userID = ('''', False)"
| "AccessLevelLoop (member # rest) userID =
     (if UserID member = userID then (MemberAccessLevel member, True)
      else AccessLevelLoop rest userID)"

definition GetMemberAccessLevel :: "Circle \<Rightarrow> ObjectID \<Rightarrow> AccessLevel \<times> bool" where
  "GetMemberAccessLevel c userID =
     (if OwnerID c = userID then (AccessLevelAdmin, True)
      else AccessLevelLoop (Members c) userID)"

section \<open>GitHub email selection (internal/service/auth/oauth\_github.go)\<close>

text \<open>
  What an outbound HTTP call gave: a failure to build or to send the request, or a reply
  with its status code, its raw body and what decoding the body as JSON into the expected
  type gives.
\<close>

datatype 'a http_reply =
    Transport error
  | Reply int string "error + 'a"

definition StatusOK :: int where
  "StatusOK = 200"

record GitHubEmail =
  Address :: string
  Primary :: bool
  Verified :: bool

fun firstPrimaryVerified :: "GitHubEmail list \<Rightarrow> string option" where
  "firstPrimaryVerified [] = None"
| "firstPrimaryVerified (email # rest) =
     (if Primary email \<and> Verified email then Some (Address email)
      else firstPrimaryVerified rest)"

fun firstVerified :: "GitHubEmail list \<Rightarrow> string option" where
  "firstVerified [] = None"
| "firstVerified (email # rest) =
     (if Verified email then Some (Address email) else firstVerified rest)"

definition selectGitHubEmail :: "GitHubEmail list \<Rightarrow> error + string" where
  \<comment> \<open>the three passes over the decoded list, lines 241--260\<close>
  "selectGitHubEmail emails =
     (case firstPrimaryVerified emails of
        Some a \<Rightarrow> Inr a
      | None \<Rightarrow>
         (case firstVerified emails of
            Some a \<Rightarrow> Inr a
          | None \<Rightarrow>
             (case emails of
                e # _ \<Rightarrow> Inr (Address e)
              | [] \<Rightarrow> Inl (Errorf ''no email found for user''))))"

definition getGitHubUserEmail :: "GitHubEmail list http_reply \<Rightarrow> error + string" where
  "getGitHubUserEmail resp =
     (case resp of
        Transport err \<Rightarrow> Inl err
      | Reply status body decoded \<Rightarrow>
          if status \<noteq> StatusOK then
            Inl (Errorf (''emails request failed with status '' @ Itoa status @ '': '' @ body))
          else
            (case decoded of
               Inl err \<Rightarrow> Inl (Wrap ''failed to decode emails'' err)
             | Inr emails \<Rightarrow> selectGitHubEmail emails))"

section \<open>OAuth state (internal/api/handlers/auth\_handler.go)\<close>

text \<open>
  \<open>string(rune(r))\<close> is the UTF-8 encoding of the code point \<open>r\<close>, and the encoding
  of U+FFFD when \<open>r\<close> is a surrogate or lies beyond U+10FFFF.
\<close>

definition utf8 :: "nat \<Rightarrow> string" where
  "utf8 r =
     (if r < 0x80 then [char_of r]
      else if r < 0x800 then [char_of (0xC0 + r div 64), char_of (0x80 + r mod 64)]
      else if (0xD800 \<le> r \<and> r \<le> 0xDFFF) \<or> 0x10FFFF < r then
        [char_of (0xEF::nat), char_of (0xBF::nat), char_of (0xBD::nat)]
      else if r < 0x10000 then
        [char_of (0xE0 + r div 4096), char_of (0x80 + (r div 64) mod 64),
         char_of (0x80 + r mod 64)]
      else
        [char_of (0xF0 + r div 262144), char_of (0x80 + (r div 4096) mod 64),
         char_of (0x80 + (r div 64) mod 64), char_of (0x80 + r mod 64)])"

definition generateRandomState :: "env \<Rightarrow> string" where
  "generateRandomState e = ''random-state-'' @ utf8 123456789"

record redirect =
  CookieName :: string
  CookieValue :: string
  CookieMaxAge :: int
  Status :: int
  Location :: string

definition StatusTemporaryRedirect :: int where
  "StatusTemporaryRedirect = 307"

definition GoogleAuth :: "(string \<Rightarrow> string) \<Rightarrow> env \<Rightarrow> redirect" where
  \<comment> \<open>the first argument is the handler's \<open>googleOAuth.GetGoogleAuthURL\<close>\<close>
  "GoogleAuth GetGoogleAuthURL e =
     (let state = generateRandomState e
      in \<lparr>CookieName = ''oauth_state'', CookieValue = state, CookieMaxAge = 300,
          Status = StatusTemporaryRedirect, Location = GetGoogleAuthURL state\<rparr>)"

definition GitHubAuth :: "(string \<Rightarrow> string) \<Rightarrow> env \<Rightarrow> redirect" where
  "GitHubAuth GetGitHubAuthURL e =
     (let state = generateRandomState e
      in \<lparr>CookieName = ''oauth_state'', CookieValue = state, CookieMaxAge = 300,
          Status = StatusTemporaryRedirect, Location = GetGitHubAuthURL state\<rparr>)"

section \<open>Session tokens (pkg/auth/jwt.go)\<close>

text \<open>
  The token library (golang-jwt, version 5) and HMAC are outside the repository. A compact
  token is modelled by what its three segments decode to: the algorithm named in the
  header, the claims, and the key under which the signature segment is the MAC of the
  first two segments (\<open>None\<close> when it is the MAC under no key, as after tampering).
  MACs are ideal: a signature made under one key verifies under that key only. Any string
  that is not such a triple is \<open>Malformed\<close>, the empty string among them.
  JSON text is taken to survive encoding and decoding unchanged, and the numbers of the
  claims are whole seconds. An error of the library stands for the sentinel it wraps.
  \<open>jwt_Parse\<close> follows the order of the library: the segments, the algorithm, the key
  function, the signature, then the time claims against the clock (\<open>exp\<close> and \<open>nbf\<close>
  when present, with no leeway).
\<close>

datatype jvalue = JString string | JNumber int | JOther

type_synonym MapClaims = "(string \<times> jvalue) list"

datatype token =
    Malformed string
  | Compact string MapClaims "string option"














definition GenerateToken :: "env \<Rightarrow> ObjectID \<Rightarrow> string \<Rightarrow> string \<Rightarrow> Duration \<Rightarrow> error + token" where
  \<comment> \<open>signing with HS256 and a byte-string key has no failing branch\<close>
  "GenerateToken e userID email secret duration =
     (let expiresAt = Unix (now e + duration);
          claims = [(''user_id'', JString (Hex userID)),
                    (''email'', JString email),
                    (''exp'', JNumber expiresAt)]
      in Inr (Compact ''HS256'' claims (Some secret)))"



section \<open>Password hashing (pkg/auth/password.go)\<close>

text \<open>
  bcrypt is outside the repository. Its salted digest and its comparison are parameters;
  what is written out is the library's first check of a stored hash, which rejects every
  hash shorter than \<open>minHashSize\<close>, before anything is compared.
\<close>

record bcrypt =
  digest :: "string \<Rightarrow> string \<Rightarrow> error + string"
  matches :: "string \<Rightarrow> string \<Rightarrow> bool"

definition minHashSize :: nat where
  "minHashSize = 59"

definition ErrHashTooShort :: error where
  "ErrHashTooShort = Sentinel ''crypto/bcrypt: hashedSecret too short to be a bcrypted password''"

definition ErrMismatchedHashAndPassword :: error where
  "ErrMismatchedHashAndPassword =
     Sentinel ''crypto/bcrypt: hashedPassword is not the hash of the given password''"

definition CompareHashAndPassword :: "bcrypt \<Rightarrow> string \<Rightarrow> string \<Rightarrow> error option" where
  "CompareHashAndPassword bc hashedPassword password =
     (if length hashedPassword < minHashSize then Some ErrHashTooShort
      else if matches bc hashedPassword password then None
      else Some ErrMismatchedHashAndPassword)"

definition HashPassword :: "bcrypt \<Rightarrow> env \<Rightarrow> string \<Rightarrow> error + string" where
  "HashPassword bc e password = digest bc (entropy e) password"

definition VerifyPassword :: "bcrypt \<Rightarrow> string \<Rightarrow> string \<Rightarrow> error option" where
  "VerifyPassword bc hash password = CompareHashAndPassword bc hash password"

section \<open>Regular expressions\<close>

text \<open>
  \<open>regexp.MatchString\<close> on a pattern anchored by \<open>^\<close> and \<open>$\<close> asks whether the
  whole text is in the language of the pattern (Go's \<open>$\<close> is the end of the text, with no
  allowance for a final newline). The matcher takes the derivative of the pattern by each
  byte in turn and asks whether what remains accepts the empty text.
\<close>

datatype rexp =
    Nothing
  | Epsilon
  | Class string
  | Seq rexp rexp
  | Alt rexp rexp
  | Star rexp

definition OneOrMore :: "rexp \<Rightarrow> rexp" where
  "OneOrMore r = Seq r (Star r)"

definition TwoOrMore :: "rexp \<Rightarrow> rexp" where
  "TwoOrMore r = Seq r (Seq r (Star r))"

fun nullable :: "rexp \<Rightarrow> bool" where
  "nullable Nothing = False"
| "nullable Epsilon = True"
| "nullable (Class cs) = False"
| "nullable (Seq r s) = (nullable r \<and> nullable s)"
| "nullable (Alt r s) = (nullable r \<or> nullable s)"
| "nullable (Star r) = True"

fun deriv :: "char \<Rightarrow> rexp \<Rightarrow> rexp" where
  "deriv c Nothing = Nothing"
| "deriv c Epsilon = Nothing"
| "deriv c (Class cs) = (if c \<in> set cs then Epsilon else Nothing)"
| "deriv c (Seq r s) =
     (if nullable r then Alt (Seq (deriv c r) s) (deriv c s) else Seq (deriv c r) s)"
| "deriv c (Alt r s) = Alt (deriv c r) (deriv c s)"
| "deriv c (Star r) = Seq (deriv c r) (Star r)"

fun MatchString :: "rexp \<Rightarrow> string \<Rightarrow> bool" where
  "MatchString r [] = nullable r"
| "MatchString r (c # cs) = MatchString (deriv c r) cs"

section \<open>Users (internal/domain/models/user.go, internal/repository/user\_repository.go)\<close>

record User =
  ID :: ObjectID
  Email :: string
  PasswordHash :: string
  Name :: string
  AvatarURL :: string
  OAuthProvider :: string
  OAuthProviderName :: string
  CreatedAt :: Time
  UpdatedAt :: Time

text \<open>
  The \<open>users\<close> collection as the repository sees it: the documents in insertion order,
  whether the unique index on \<open>email\<close> of \<open>createUserIndexes\<close> is in place (the index on
  \<open>_id\<close> always is), and the failure, if any, with which the driver answers every
  operation (server unreachable, context cancelled).
\<close>

record users =
  docs :: "User list"
  emailUnique :: bool
  outage :: "error option"

definition ErrNoDocuments :: error where
  "ErrNoDocuments = Sentinel ''mongo: no documents in result''"

definition duplicateKey :: error where
  \<comment> \<open>the driver's write exception for error code 11000\<close>
  "duplicateKey = Errorf ''E11000 duplicate key error''"

definition InsertOne :: "users \<Rightarrow> User \<Rightarrow> error + users" where
  "InsertOne db u =
     (case outage db of
        Some err \<Rightarrow> Inl err
      | None \<Rightarrow>
          if list_ex (\<lambda>d. ID d = ID u) (docs db) then Inl duplicateKey
          else if emailUnique db \<and> list_ex (\<lambda>d. Email d = Email u) (docs db)
          then Inl duplicateKey
          else Inr (db\<lparr>docs := docs db @ [u]\<rparr>))"

definition FindOne :: "users \<Rightarrow> (User \<Rightarrow> bool) \<Rightarrow> error + User" where
  "FindOne db matching =
     (case outage db of
        Some err \<Rightarrow> Inl err
      | None \<Rightarrow>
          (case find matching (docs db) of
             None \<Rightarrow> Inl ErrNoDocuments
           | Some u \<Rightarrow> Inr u))"

definition setFields :: "User \<Rightarrow> User \<Rightarrow> User" where
  \<comment> \<open>\<open>$set\<close> with the marshalled struct: a field tagged \<open>omitempty\<close> is left out of
      the update, and so keeps its stored value, when it is empty\<close>
  "setFields old new =
     new\<lparr>ID := (if IsZero (ID new) then ID old else ID new),
         AvatarURL := (if AvatarURL new = [] then AvatarURL old else AvatarURL new),
         OAuthProvider :=
           (if OAuthProvider new = [] then OAuthProvider old else OAuthProvider new),
         OAuthProviderName :=
           (if OAuthProviderName new = [] then OAuthProviderName old
            else OAuthProviderName new)\<rparr>"

fun replaceFirst :: "ObjectID \<Rightarrow> User \<Rightarrow> User list \<Rightarrow> User list" where
  "replaceFirst oid new [] = []"
| "replaceFirst oid new (d # ds) =
     (if ID d = oid then setFields d new # ds else d # replaceFirst oid new ds)"

definition UpdateOne :: "users \<Rightarrow> ObjectID \<Rightarrow> User \<Rightarrow> error + nat \<times> users" where
  \<comment> \<open>\<open>UpdateOne\<close> with the filter on \<open>_id\<close>; the number is \<open>MatchedCount\<close>\<close>
  "UpdateOne db oid new =
     (case outage db of
        Some err \<Rightarrow> Inl err
      | None \<Rightarrow>
          (case find (\<lambda>d. ID d = oid) (docs db) of
             None \<Rightarrow> Inr (0, db)
           | Some old \<Rightarrow>
               if emailUnique db \<and>
                  list_ex (\<lambda>d. ID d \<noteq> oid \<and> Email d = Email new) (docs db)
               then Inl duplicateKey
               else Inr (1, db\<lparr>docs := replaceFirst oid new (docs db)\<rparr>)))"

definition ErrUserNotFound :: error where
  "ErrUserNotFound = Sentinel ''user not found''"

text \<open>
  The methods of \<open>mongoUserRepository\<close>. \<open>Create\<close> and \<open>Update\<close> write through the
  pointer they are given, so they return the struct as the caller sees it afterwards.
\<close>

definition UserRepository_Create :: "env \<Rightarrow> users \<Rightarrow> User \<Rightarrow> error option \<times> User \<times> users" where
  "UserRepository_Create e db user =
     (let user = (if IsZero (ID user) then user\<lparr>ID := newObjectID e\<rparr> else user);
          user = user\<lparr>CreatedAt := now e, UpdatedAt := now e\<rparr>
      in case InsertOne db user of
           Inl err \<Rightarrow> (Some (Wrap ''failed to create user'' err), user, db)
         | Inr db' \<Rightarrow> (None, user, db'))"

definition UserRepository_FindByID :: "users \<Rightarrow> ObjectID \<Rightarrow> error + User" where
  "UserRepository_FindByID db oid =
     (case FindOne db (\<lambda>d. ID d = oid) of
        Inl err \<Rightarrow>
          if err = ErrNoDocuments then Inl ErrUserNotFound
          else Inl (Wrap ''failed to find user'' err)
      | Inr user \<Rightarrow> Inr user)"

definition UserRepository_FindByEmail :: "users \<Rightarrow> string \<Rightarrow> error + User" where
  "UserRepository_FindByEmail db email =
     (case FindOne db (\<lambda>d. Email d = email) of
        Inl err \<Rightarrow>
          if err = ErrNoDocuments then Inl ErrUserNotFound
          else Inl (Wrap ''failed to find user'' err)
      | Inr user \<Rightarrow> Inr user)"

definition UserRepository_Update :: "env \<Rightarrow> users \<Rightarrow> User \<Rightarrow> error option \<times> User \<times> users" where
  "UserRepository_Update e db user =
     (let user = user\<lparr>UpdatedAt := now e\<rparr>
      in case UpdateOne db (ID user) user of
           Inl err \<Rightarrow> (Some (Wrap ''failed to update user'' err), user, db)
         | Inr (matched, db') \<Rightarrow>
             if matched = 0 then (Some (Errorf ''user not found''), user, db')
             else (None, user, db'))"

section \<open>Credential service (internal/service/auth)\<close>

definition ErrEmailAlreadyExists :: error where
  "ErrEmailAlreadyExists = Sentinel ''email already exists''"

definition ErrInvalidCredentials :: error where
  "ErrInvalidCredentials = Sentinel ''invalid credentials''"

definition ErrInvalidEmail :: error where
  "ErrInvalidEmail = Sentinel ''invalid email format''"

definition ErrPasswordTooShort :: error where
  "ErrPasswordTooShort = Sentinel ''password must be at least 8 characters''"

definition ErrEmailRequired :: error where
  "ErrEmailRequired = Sentinel ''email is required''"

definition ErrPasswordRequired :: error where
  "ErrPasswordRequired = Sentinel ''password is required''"

definition ErrNameRequired :: error where
  "ErrNameRequired = Sentinel ''name is required''"

definition minPasswordLength :: nat where
  "minPasswordLength = 8"

definition letters :: string where
  "letters = ''abcdefghijklmnopqrstuvwxyzABCDEFGHIJKLMNOPQRSTUVWXYZ''"

definition alnum :: string where
  "alnum = letters @ ''0123456789''"

definition emailRegex :: rexp where
  \<comment> \<open>\<^verbatim>\<open>^[a-zA-Z0-9._%+\-]+@[a-zA-Z0-9.\-]+\.[a-zA-Z]{2,}$\<close>\<close>
  "emailRegex =
     Seq (OneOrMore (Class (alnum @ ''._%+-'')))
       (Seq (Class ''@'')
         (Seq (OneOrMore (Class (alnum @ ''.-'')))
           (Seq (Class ''.'') (TwoOrMore (Class letters)))))"

record Service =
  jwtSecret :: string
  tokenDuration :: Duration

record AuthResult =
  Token :: token
  AuthUserID :: string
  AuthEmail :: string
  AuthName :: string

text \<open>
  \<open>Register\<close> in two parts, so that the collection a request inserts into need not be
  the one it looked the email up in (another request may have written in between):
  \<open>Register_check\<close> is the body up to and including the lookup (lines 63--91),
  \<open>Register_store\<close> the rest (lines 93--124). \<open>Register\<close> runs both on one collection,
  as a request running alone does.
\<close>

definition Register_check :: "users \<Rightarrow> string \<Rightarrow> string \<Rightarrow> string \<Rightarrow> error option" where
  "Register_check db email password name =
     (if email = [] then Some ErrEmailRequired
      else if password = [] then Some ErrPasswordRequired
      else if name = [] then Some ErrNameRequired
      else if \<not> MatchString emailRegex email then Some ErrInvalidEmail
      else if length password < minPasswordLength then Some ErrPasswordTooShort
      else
        (case UserRepository_FindByEmail db email of
           Inl err \<Rightarrow>
             if err \<noteq> ErrUserNotFound then Some (Wrap ''failed to check existing user'' err)
             else None
         | Inr existingUser \<Rightarrow> Some ErrEmailAlreadyExists))"

definition Register_store ::
  "bcrypt \<Rightarrow> Service \<Rightarrow> env \<Rightarrow> users \<Rightarrow> string \<Rightarrow> string \<Rightarrow> string \<Rightarrow> (error + AuthResult) \<times> users" where
  "Register_store bc s e db email password name =
     (case HashPassword bc e password of
        Inl err \<Rightarrow> (Inl (Wrap ''failed to hash password'' err), db)
      | Inr passwordHash \<Rightarrow>
          (let user = \<lparr>ID = 0, Email = email, PasswordHash = passwordHash, Name = name,
                       AvatarURL = [], OAuthProvider = [], OAuthProviderName = [],
                       CreatedAt = now e, UpdatedAt = now e\<rparr>
           in case UserRepository_Create e db user of
                (Some err, user, db') \<Rightarrow> (Inl (Wrap ''failed to create user'' err), db')
              | (None, user, db') \<Rightarrow>
                  (case GenerateToken e (ID user) email (jwtSecret s) (tokenDuration s) of
                     Inl err \<Rightarrow> (Inl (Wrap ''failed to generate token'' err), db')
                   | Inr token \<Rightarrow>
                       (Inr \<lparr>Token = token, AuthUserID = Hex (ID user),
                             AuthEmail = Email user, AuthName = Name user\<rparr>, db'))))"

definition Register ::
  "bcrypt \<Rightarrow> Service \<Rightarrow> env \<Rightarrow> users \<Rightarrow> string \<Rightarrow> string \<Rightarrow> string \<Rightarrow> (error + AuthResult) \<times> users" where
  "Register bc s e db email password name =
     (case Register_check db email password name of
        Some err \<Rightarrow> (Inl err, db)
      | None \<Rightarrow> Register_store bc s e db email password name)"

definition Login ::
  "bcrypt \<Rightarrow> Service \<Rightarrow> env \<Rightarrow> users \<Rightarrow> string \<Rightarrow> string \<Rightarrow> error + AuthResult" where
  "Login bc s e db email password =
     (if email = [] then Inl ErrEmailRequired
      else if password = [] then Inl ErrPasswordRequired
      else
        (case UserRepository_FindByEmail db email of
           Inl err \<Rightarrow>
             if err = ErrUserNotFound then Inl ErrInvalidCredentials
             else Inl (Wrap ''failed to find user'' err)
         | Inr user \<Rightarrow>
             (case VerifyPassword bc (PasswordHash user) password of
                Some err \<Rightarrow> Inl ErrInvalidCredentials
              | None \<Rightarrow>
                  (case GenerateToken e (ID user) email (jwtSecret s) (tokenDuration s) of
                     Inl err \<Rightarrow> Inl (Wrap ''failed to generate token'' err)
                   | Inr token \<Rightarrow>
                       Inr \<lparr>Token = token, AuthUserID = Hex (ID user),
                            AuthEmail = Email user, AuthName = Name user\<rparr>))))"

definition StatusBadRequest :: int where "StatusBadRequest = 400"
definition StatusUnauthorized :: int where "StatusUnauthorized = 401"
definition StatusInternalServerError :: int where "StatusInternalServerError = 500"


definition LoginStatus :: "error + AuthResult \<Rightarrow> int" where
  "LoginStatus r =
     (case r of
        Inl err \<Rightarrow>
          if errors_Is err ErrInvalidCredentials then StatusUnauthorized
          else if errors_Is err ErrEmailRequired \<or> errors_Is err ErrPasswordRequired
          then StatusBadRequest
          else StatusInternalServerError
      | Inr result \<Rightarrow> StatusOK)"

section \<open>OAuth callbacks (internal/service/auth/oauth\_github.go, oauth\_google.go)\<close>

definition ErrOAuthCodeRequired :: error where
  "ErrOAuthCodeRequired = Sentinel ''authorization code is required''"

definition ErrOAuthTokenExchange :: error where
  "ErrOAuthTokenExchange = Sentinel ''failed to exchange authorization code for token''"

definition ErrOAuthUserInfo :: error where
  "ErrOAuthUserInfo = Sentinel ''failed to fetch user information''"

record GitHubTokenResponse =
  AccessToken :: string
  TokenType :: string
  Scope :: string

record GitHubUserInfo =
  GitHubID :: int
  GitHubLogin :: string
  GitHubName :: string

record GoogleTokenResponse =
  GoogleAccessToken :: string
  GoogleTokenType :: string
  ExpiresIn :: int

record GoogleUserInfo =
  GoogleID :: string
  GoogleEmail :: string
  GoogleName :: string

text \<open>
  A provider is what its endpoints answer: the token endpoint to an authorization code,
  the other endpoints to the access token presented as bearer credential.
\<close>

record github =
  githubToken :: "string \<Rightarrow> GitHubTokenResponse http_reply"
  githubUser :: "string \<Rightarrow> GitHubUserInfo http_reply"
  githubEmails :: "string \<Rightarrow> GitHubEmail list http_reply"

record google =
  googleToken :: "string \<Rightarrow> GoogleTokenResponse http_reply"
  googleUserInfo :: "string \<Rightarrow> GoogleUserInfo http_reply"

definition exchangeGitHubCodeForToken :: "GitHubTokenResponse http_reply \<Rightarrow> error + string" where
  "exchangeGitHubCodeForToken resp =
     (case resp of
        Transport err \<Rightarrow> Inl err
      | Reply status body decoded \<Rightarrow>
          if status \<noteq> StatusOK then
            Inl (Errorf (''token exchange failed with status '' @ Itoa status @ '': '' @ body))
          else
            (case decoded of
               Inl err \<Rightarrow> Inl (Wrap ''failed to decode token response'' err)
             | Inr tokenResp \<Rightarrow> Inr (AccessToken tokenResp)))"

definition getGitHubUserInfo :: "GitHubUserInfo http_reply \<Rightarrow> error + GitHubUserInfo" where
  "getGitHubUserInfo resp =
     (case resp of
        Transport err \<Rightarrow> Inl err
      | Reply status body decoded \<Rightarrow>
          if status \<noteq> StatusOK then
            Inl (Errorf (''user info request failed with status '' @ Itoa status @ '': '' @ body))
          else
            (case decoded of
               Inl err \<Rightarrow> Inl (Wrap ''failed to decode user info'' err)
             | Inr userInfo \<Rightarrow> Inr userInfo))"

definition exchangeCodeForToken :: "GoogleTokenResponse http_reply \<Rightarrow> error + string" where
  "exchangeCodeForToken resp =
     (case resp of
        Transport err \<Rightarrow> Inl err
      | Reply status body decoded \<Rightarrow>
          if status \<noteq> StatusOK then
            Inl (Errorf (''token exchange failed with status '' @ Itoa status @ '': '' @ body))
          else
            (case decoded of
               Inl err \<Rightarrow> Inl (Wrap ''failed to decode token response'' err)
             | Inr tokenResp \<Rightarrow> Inr (GoogleAccessToken tokenResp)))"

definition getUserInfo :: "GoogleUserInfo http_reply \<Rightarrow> error + GoogleUserInfo" where
  "getUserInfo resp =
     (case resp of
        Transport err \<Rightarrow> Inl err
      | Reply status body decoded \<Rightarrow>
          if status \<noteq> StatusOK then
            Inl (Errorf (''user info request failed with status '' @ Itoa status @ '': '' @ body))
          else
            (case decoded of
               Inl err \<Rightarrow> Inl (Wrap ''failed to decode user info'' err)
             | Inr userInfo \<Rightarrow> Inr userInfo))"

definition issueToken :: "Service \<Rightarrow> env \<Rightarrow> User \<Rightarrow> error + AuthResult" where
  \<comment> \<open>the last step of both callbacks\<close>
  "issueToken s e user =
     (case GenerateToken e (ID user) (Email user) (jwtSecret s) (tokenDuration s) of
        Inl err \<Rightarrow> Inl (Wrap ''failed to generate token'' err)
      | Inr token \<Rightarrow>
          Inr \<lparr>Token = token, AuthUserID = Hex (ID user),
               AuthEmail = Email user, AuthName = Name user\<rparr>)"

text \<open>
  Both callbacks end in the same block (oauth\_github.go lines 99--145, and the same lines
  of \<open>HandleGoogleCallback\<close>), which differs only in the provider's user id and name
  written into the record: find the user by email, create it when absent, fill in the
  provider fields when the stored \<open>OAuthProvider\<close> is empty, then issue the token.
\<close>

definition findOrCreate ::
  "Service \<Rightarrow> env \<Rightarrow> users \<Rightarrow> string \<Rightarrow> string \<Rightarrow> string \<Rightarrow> string \<Rightarrow> (error + AuthResult) \<times> users" where
  "findOrCreate s e db email name providerID providerName =
     (case UserRepository_FindByEmail db email of
        Inl err \<Rightarrow>
          if err \<noteq> ErrUserNotFound then (Inl (Wrap ''failed to find user'' err), db)
          else
            (let user = \<lparr>ID = 0, Email = email, PasswordHash = [], Name = name,
                         AvatarURL = [], OAuthProvider = providerID,
                         OAuthProviderName = providerName,
                         CreatedAt = now e, UpdatedAt = now e\<rparr>
             in case UserRepository_Create e db user of
                  (Some err, user, db') \<Rightarrow> (Inl (Wrap ''failed to create user'' err), db')
                | (None, user, db') \<Rightarrow> (issueToken s e user, db'))
      | Inr user \<Rightarrow>
          if OAuthProvider user = [] then
            (let user = user\<lparr>OAuthProvider := providerID, OAuthProviderName := providerName,
                             UpdatedAt := now e\<rparr>
             in case UserRepository_Update e db user of
                  (Some err, user, db') \<Rightarrow> (Inl (Wrap ''failed to update user'' err), db')
                | (None, user, db') \<Rightarrow> (issueToken s e user, db'))
          else (issueToken s e user, db))"

definition HandleGitHubCallback ::
  "github \<Rightarrow> Service \<Rightarrow> env \<Rightarrow> users \<Rightarrow> string \<Rightarrow> (error + AuthResult) \<times> users" where
  "HandleGitHubCallback p s e db code =
     (if code = [] then (Inl ErrOAuthCodeRequired, db)
      else
        (case exchangeGitHubCodeForToken (githubToken p code) of
           Inl err \<Rightarrow> (Inl (WrapQuote ErrOAuthTokenExchange err), db)
         | Inr accessToken \<Rightarrow>
             (case getGitHubUserInfo (githubUser p accessToken) of
                Inl err \<Rightarrow> (Inl (WrapQuote ErrOAuthUserInfo err), db)
              | Inr userInfo \<Rightarrow>
                  (case getGitHubUserEmail (githubEmails p accessToken) of
                     Inl err \<Rightarrow> (Inl (Wrap ''failed to get user email'' err), db)
                   | Inr email \<Rightarrow>
                       findOrCreate s e db email (GitHubName userInfo)
                         (Itoa (GitHubID userInfo)) ''github''))))"

definition HandleGoogleCallback ::
  "google \<Rightarrow> Service \<Rightarrow> env \<Rightarrow> users \<Rightarrow> string \<Rightarrow> (error + AuthResult) \<times> users" where
  "HandleGoogleCallback p s e db code =
     (if code = [] then (Inl ErrOAuthCodeRequired, db)
      else
        (case exchangeCodeForToken (googleToken p code) of
           Inl err \<Rightarrow> (Inl (WrapQuote ErrOAuthTokenExchange err), db)
         | Inr accessToken \<Rightarrow>
             (case getUserInfo (googleUserInfo p accessToken) of
                Inl err \<Rightarrow> (Inl (WrapQuote ErrOAuthUserInfo err), db)
              | Inr userInfo \<Rightarrow>
                  findOrCreate s e db (GoogleEmail userInfo) (GoogleName userInfo)
                    (GoogleID userInfo) ''google'')))"

section \<open>Circle repository (internal/repository/circle\_repository.go)\<close>

record circles =
  circleDocs :: "Circle list"
  circleOutage :: "error option"

fun updateFirst :: "(Circle \<Rightarrow> bool) \<Rightarrow> (Circle \<Rightarrow> Circle) \<Rightarrow> Circle list \<Rightarrow> nat \<times> Circle list" where
  \<comment> \<open>\<open>UpdateOne\<close>: the first document the filter matches is changed; the number is
      \<open>MatchedCount\<close>\<close>
  "updateFirst matching change [] = (0, [])"
| "updateFirst matching change (d # ds) =
     (if matching d then (1, change d # ds)
      else (case updateFirst matching change ds of (n, ds') \<Rightarrow> (n, d # ds')))"

definition FindOneCircle :: "circles \<Rightarrow> (Circle \<Rightarrow> bool) \<Rightarrow> error + Circle" where
  "FindOneCircle db matching =
     (case circleOutage db of
        Some err \<Rightarrow> Inl err
      | None \<Rightarrow>
          (case find matching (circleDocs db) of
             None \<Rightarrow> Inl ErrNoDocuments
           | Some circle \<Rightarrow> Inr circle))"

definition CircleRepository_FindByID :: "circles \<Rightarrow> ObjectID \<Rightarrow> error + Circle" where
  "CircleRepository_FindByID db oid =
     (case FindOneCircle db (\<lambda>d. CircleID d = oid) of
        Inl err \<Rightarrow>
          if err = ErrNoDocuments then Inl (Wrap ''circle not found'' err)
          else Inl (Wrap ''failed to find circle'' err)
      | Inr circle \<Rightarrow> Inr circle)"

definition CircleRepository_AddMember ::
  "env \<Rightarrow> circles \<Rightarrow> ObjectID \<Rightarrow> CircleMember \<Rightarrow> error option \<times> circles" where
  \<comment> \<open>\<open>$push\<close> appends to the array, whatever it holds\<close>
  "CircleRepository_AddMember e db circleID member =
     (case circleOutage db of
        Some err \<Rightarrow> (Some (Wrap ''failed to add member to circle'' err), db)
      | None \<Rightarrow>
          (case updateFirst (\<lambda>d. CircleID d = circleID)
                  (\<lambda>d. d\<lparr>Members := Members d @ [member], CircleUpdatedAt := now e\<rparr>)
                  (circleDocs db) of
             (matched, ds) \<Rightarrow>
               if matched = 0 then (Some (Errorf ''circle not found''), db)
               else (None, db\<lparr>circleDocs := ds\<rparr>)))"

fun memberExists :: "CircleMember list \<Rightarrow> ObjectID \<Rightarrow> bool" where
  "memberExists [] userID = False"
| "memberExists (member # rest) userID =
     (if UserID member = userID then True else memberExists rest userID)"

definition CircleRepository_RemoveMember ::
  "env \<Rightarrow> circles \<Rightarrow> ObjectID \<Rightarrow> ObjectID \<Rightarrow> error option \<times> circles" where
  \<comment> \<open>\<open>$pull\<close> removes every element of the array with the user id\<close>
  "CircleRepository_RemoveMember e db circleID userID =
     (case CircleRepository_FindByID db circleID of
        Inl err \<Rightarrow> (Some err, db)
      | Inr circle \<Rightarrow>
          if \<not> memberExists (Members circle) userID
          then (Some (Errorf ''member not found in circle''), db)
          else
            (case circleOutage db of
               Some err \<Rightarrow> (Some (Wrap ''failed to remove member from circle'' err), db)
             | None \<Rightarrow>
                 (case updateFirst (\<lambda>d. CircleID d = circleID)
                         (\<lambda>d. d\<lparr>Members := filter (\<lambda>m. UserID m \<noteq> userID) (Members d),
                                 CircleUpdatedAt := now e\<rparr>)
                         (circleDocs db) of
                    (matched, ds) \<Rightarrow>
                      if matched = 0 then (Some (Errorf ''circle not found''), db)
                      else (None, db\<lparr>circleDocs := ds\<rparr>))))"

fun setFirstAccess :: "ObjectID \<Rightarrow> AccessLevel \<Rightarrow> CircleMember list \<Rightarrow> CircleMember list" where
  \<comment> \<open>the positional operator: the first element of the array that the filter matched\<close>
  "setFirstAccess userID accessLevel [] = []"
| "setFirstAccess userID accessLevel (m # ms) =
     (if UserID m = userID then m\<lparr>MemberAccessLevel := accessLevel\<rparr> # ms
      else m # setFirstAccess userID accessLevel ms)"

definition CircleRepository_UpdateMemberAccess ::
  "env \<Rightarrow> circles \<Rightarrow> ObjectID \<Rightarrow> ObjectID \<Rightarrow> AccessLevel \<Rightarrow> error option \<times> circles" where
  "CircleRepository_UpdateMemberAccess e db circleID userID accessLevel =
     (case CircleRepository_FindByID db circleID of
        Inl err \<Rightarrow> (Some err, db)
      | Inr circle \<Rightarrow>
          if \<not> memberExists (Members circle) userID
          then (Some (Errorf ''member not found in circle''), db)
          else
            (case circleOutage db of
               Some err \<Rightarrow> (Some (Wrap ''failed to update member access'' err), db)
             | None \<Rightarrow>
                 (case updateFirst
                         (\<lambda>d. CircleID d = circleID \<and> list_ex (\<lambda>m. UserID m = userID) (Members d))
                         (\<lambda>d. d\<lparr>Members := setFirstAccess userID accessLevel (Members d),
                                 CircleUpdatedAt := now e\<rparr>)
                         (circleDocs db) of
                    (matched, ds) \<Rightarrow>
                      if matched = 0 then (Some (Errorf ''circle or member not found''), db)
                      else (None, db\<lparr>circleDocs := ds\<rparr>))))"

section \<open>Sample data\<close>

text \<open>
  Concrete values on which the definitions are run below. \<open>toyBcrypt\<close> has the interface
  of bcrypt and nothing of its strength: the hash is a fixed prefix of the length of a
  bcrypt hash, then the salt, a dollar sign and the password itself.
\<close>

definition toyPrefix :: string where
  "toyPrefix = ''$2a$10$......................-............................./''"

definition toyBcrypt :: bcrypt where
  "toyBcrypt =
     \<lparr>digest = (\<lambda>salt password. Inr (toyPrefix @ salt @ ''$'' @ password)),
      matches = (\<lambda>hash password.
         rev (takeWhile (\<lambda>c. c \<noteq> CHR 0x24) (rev hash)) = password)\<rparr>"

definition someEnv :: env where
  "someEnv = \<lparr>now = 1700000000000000000, newObjectID = 7, entropy = ''salt''\<rparr>"

definition laterEnv :: env where
  "laterEnv = \<lparr>now = 1700000005000000000, newObjectID = 8, entropy = ''pepper''\<rparr>"

definition someService :: Service where
  "someService = \<lparr>jwtSecret = ''secret'', tokenDuration = 3600 * Second\<rparr>"

definition noUsers :: users where
  "noUsers = \<lparr>docs = [], emailUnique = True, outage = None\<rparr>"

definition someCircle :: Circle where
  "someCircle =
     \<lparr>CircleID = 100, CircleName = ''Friends'', OwnerID = 1,
      Members = [\<lparr>UserID = 2, MemberAccessLevel = AccessLevelView, InvitedAt = 0,
                  AcceptedAt = None\<rparr>],
      CircleCreatedAt = 0, CircleUpdatedAt = 0\<rparr>"

definition aliceUsers :: users where
  \<comment> \<open>the collection after \<open>Register\<close> of a@b.com with password1 under \<open>someEnv\<close>\<close>
  "aliceUsers =
     \<lparr>docs = [\<lparr>ID = 7, Email = ''a@b.com'', PasswordHash = toyPrefix @ ''salt$password1'',
               Name = ''A'', AvatarURL = [], OAuthProvider = [], OAuthProviderName = [],
               CreatedAt = 1700000000000000000, UpdatedAt = 1700000000000000000\<rparr>],
      emailUnique = True, outage = None\<rparr>"

definition someGitHub :: github where
  "someGitHub =
     \<lparr>githubToken = (\<lambda>code. Reply 200 ''{}''
        (Inr \<lparr>AccessToken = ''gho_16C7'', TokenType = ''bearer'', Scope = ''user:email''\<rparr>)),
      githubUser = (\<lambda>accessToken. Reply 200 ''{}''
        (Inr \<lparr>GitHubID = 42, GitHubLogin = ''alice'', GitHubName = ''Alice''\<rparr>)),
      githubEmails = (\<lambda>accessToken. Reply 200 ''[]''
        (Inr [\<lparr>Address = ''a@b.com'', Primary = True, Verified = True\<rparr>]))\<rparr>"

definition blankGoogle :: google where
  "blankGoogle =
     \<lparr>googleToken = (\<lambda>code. Reply 200 ''{}''
        (Inr \<lparr>GoogleAccessToken = ''ya29'', GoogleTokenType = ''Bearer'', ExpiresIn = 3599\<rparr>)),
      googleUserInfo = (\<lambda>accessToken. Reply 200 ''{}''
        (Inr \<lparr>GoogleID = ''g-1'', GoogleEmail = [], GoogleName = ''Nobody''\<rparr>))\<rparr>"


definition someCircles :: circles where
  "someCircles = \<lparr>circleDocs = [someCircle], circleOutage = None\<rparr>"

definition secondEntry :: CircleMember where
  "secondEntry = \<lparr>UserID = 2, MemberAccessLevel = AccessLevelEdit,
                   InvitedAt = 1700000005000000000, AcceptedAt = None\<rparr>"

section \<open>Access resolution\<close>

lemma AccessLevelLoop_find:
  "AccessLevelLoop ms userID =
     (case find (\<lambda>m. UserID m = userID) ms of
        Some m \<Rightarrow> (MemberAccessLevel m, True)
      | None \<Rightarrow> ('''', False))"
  by (induction ms) auto

text \<open>
  Claim C3. The owner of a circle resolves to admin whatever the member list holds;
  any other user resolves to the stored level of the (first) member entry carrying the
  user's id, and to the no-access outcome (empty level, false) when there is no entry.
\<close>

theorem GetMemberAccessLevel_resolution:
  "(OwnerID c = userID \<longrightarrow> GetMemberAccessLevel c userID = (AccessLevelAdmin, True)) \<and>
   (OwnerID c \<noteq> userID \<longrightarrow>
      (\<forall>m. find (\<lambda>m. UserID m = userID) (Members c) = Some m \<longrightarrow>
         GetMemberAccessLevel c userID = (MemberAccessLevel m, True)) \<and>
      (userID \<notin> UserID ` set (Members c) \<longrightarrow>
         GetMemberAccessLevel c userID = ('''', False)))"
proof -
  have absent: "find (\<lambda>m. UserID m = userID) (Members c) = None"
    if "userID \<notin> UserID ` set (Members c)"
    using that by (auto simp: find_None_iff)
  show ?thesis
    by (auto simp: GetMemberAccessLevel_def AccessLevelLoop_find absent)
qed

theorem GetMemberAccessLevel_resolution_witness:
  "GetMemberAccessLevel someCircle 1 = (''admin'', True) \<and>
   GetMemberAccessLevel someCircle 2 = (''view'', True) \<and>
   GetMemberAccessLevel someCircle 3 = ('''', False)"
  using GetMemberAccessLevel_resolution [of someCircle 1]
        GetMemberAccessLevel_resolution [of someCircle 2]
        GetMemberAccessLevel_resolution [of someCircle 3]
  by (simp add: someCircle_def AccessLevelAdmin_def AccessLevelView_def)

section \<open>GitHub email selection\<close>

lemma firstPrimaryVerified_find:
  "firstPrimaryVerified emails =
     map_option Address (find (\<lambda>e. Primary e \<and> Verified e) emails)"
  by (induction emails) auto

lemma firstVerified_find:
  "firstVerified emails = map_option Address (find Verified emails)"
  by (induction emails) auto

text \<open>
  Claim C6. From the decoded list of a successful emails request the address taken is
  that of the first entry marked primary and verified; when there is none, that of the
  first verified entry; when there is none either, that of the first entry; and an empty
  list fails with "no email found for user".
\<close>

theorem getGitHubUserEmail_selection:
  "(\<forall>x. find (\<lambda>e. Primary e \<and> Verified e) emails = Some x \<longrightarrow>
       getGitHubUserEmail (Reply StatusOK body (Inr emails)) = Inr (Address x)) \<and>
   (find (\<lambda>e. Primary e \<and> Verified e) emails = None \<longrightarrow>
      (\<forall>x. find Verified emails = Some x \<longrightarrow>
          getGitHubUserEmail (Reply StatusOK body (Inr emails)) = Inr (Address x)) \<and>
      (find Verified emails = None \<longrightarrow>
         (\<forall>x rest. emails = x # rest \<longrightarrow>
             getGitHubUserEmail (Reply StatusOK body (Inr emails)) = Inr (Address x)) \<and>
         (emails = [] \<longrightarrow>
             getGitHubUserEmail (Reply StatusOK body (Inr emails)) =
               Inl (Errorf ''no email found for user''))))"
  by (auto simp: getGitHubUserEmail_def selectGitHubEmail_def firstPrimaryVerified_find
        firstVerified_find split: list.splits)

theorem getGitHubUserEmail_selection_witness:
  "getGitHubUserEmail (Reply StatusOK ''[...]''
      (Inr [\<lparr>Address = ''x@y.com'', Primary = False, Verified = True\<rparr>])) = Inr ''x@y.com'' \<and>
   getGitHubUserEmail (Reply StatusOK ''[...]''
      (Inr [\<lparr>Address = ''a@y.com'', Primary = True, Verified = False\<rparr>,
            \<lparr>Address = ''b@y.com'', Primary = False, Verified = True\<rparr>,
            \<lparr>Address = ''c@y.com'', Primary = True, Verified = True\<rparr>])) = Inr ''c@y.com'' \<and>
   getGitHubUserEmail (Reply StatusOK ''[...]''
      (Inr [\<lparr>Address = ''a@y.com'', Primary = True, Verified = False\<rparr>,
            \<lparr>Address = ''b@y.com'', Primary = False, Verified = False\<rparr>])) = Inr ''a@y.com'' \<and>
   getGitHubUserEmail (Reply StatusOK ''[]'' (Inr [])) = Inl (Errorf ''no email found for user'')"
  using getGitHubUserEmail_selection
          [of "[\<lparr>Address = ''x@y.com'', Primary = False, Verified = True\<rparr>]" "''[...]''"]
        getGitHubUserEmail_selection
          [of "[\<lparr>Address = ''a@y.com'', Primary = True, Verified = False\<rparr>,
                \<lparr>Address = ''b@y.com'', Primary = False, Verified = True\<rparr>,
                \<lparr>Address = ''c@y.com'', Primary = True, Verified = True\<rparr>]" "''[...]''"]
        getGitHubUserEmail_selection
          [of "[\<lparr>Address = ''a@y.com'', Primary = True, Verified = False\<rparr>,
                \<lparr>Address = ''b@y.com'', Primary = False, Verified = False\<rparr>]" "''[...]''"]
        getGitHubUserEmail_selection [of "[]" "''[]''"]
  by simp

section \<open>OAuth state\<close>

text \<open>
  Claim C9. \<open>generateRandomState\<close> gives the same string whatever the clock and the
  random source hold, so every redirect, of either provider, sets the same value in the
  \<open>oauth_state\<close> cookie.
\<close>

theorem generateRandomState_constant:
  "generateRandomState e = generateRandomState e' \<and>
   generateRandomState e = ''random-state-'' @ [char_of (0xEF::nat), char_of (0xBF::nat), char_of (0xBD::nat)] \<and>
   CookieValue (GoogleAuth url e) = CookieValue (GoogleAuth url' e') \<and>
   CookieValue (GitHubAuth url e) = CookieValue (GitHubAuth url' e') \<and>
   CookieValue (GoogleAuth url e) = CookieValue (GitHubAuth url' e')"
  by (simp add: generateRandomState_def GoogleAuth_def GitHubAuth_def utf8_def Let_def)

section \<open>Token round trip\<close>






section \<open>Registration and login\<close>

lemmas regex_defs = emailRegex_def OneOrMore_def TwoOrMore_def alnum_def letters_def

lemma match_ab: "MatchString emailRegex ''a@b.com''"
  by (simp add: regex_defs)


lemma not_PasswordTooShort:
  "Wrap c x \<noteq> ErrPasswordTooShort" "ErrEmailAlreadyExists \<noteq> ErrPasswordTooShort"
  "ErrEmailRequired \<noteq> ErrPasswordTooShort" "ErrPasswordRequired \<noteq> ErrPasswordTooShort"
  "ErrNameRequired \<noteq> ErrPasswordTooShort" "ErrInvalidEmail \<noteq> ErrPasswordTooShort"
  by (simp_all add: ErrPasswordTooShort_def ErrEmailAlreadyExists_def ErrEmailRequired_def
        ErrPasswordRequired_def ErrNameRequired_def ErrInvalidEmail_def)

lemma Register_store_not_short:
  "fst (Register_store bc s e db email password name) \<noteq> Inl ErrPasswordTooShort"
  by (auto simp: Register_store_def GenerateToken_def Let_def not_PasswordTooShort
        split: sum.splits prod.splits option.splits)

text \<open>
  Claim C7, as the code has it. \<open>Register\<close> makes its checks one after the other, in the
  order email present, password present, name present, email format, password length,
  and fails with the error of the first check that does not pass. So an empty email gives
  \<open>ErrEmailRequired\<close>; with a non-empty email, an empty password gives
  \<open>ErrPasswordRequired\<close>; with both non-empty, an empty name gives \<open>ErrNameRequired\<close>;
  with all three non-empty, an email outside the pattern gives \<open>ErrInvalidEmail\<close>; and
  once these four checks pass the outcome is \<open>ErrPasswordTooShort\<close> exactly when the
  password has fewer than 8 bytes. A password of 7 bytes is rejected whatever the other
  fields are, and one of 8 bytes is never answered with \<open>ErrPasswordTooShort\<close>.
\<close>

theorem Register_validation:
  assumes "fst (Register bc s e db email password name) = r"
  shows "(email = [] \<longrightarrow> r = Inl ErrEmailRequired) \<and>
         (email \<noteq> [] \<and> password = [] \<longrightarrow> r = Inl ErrPasswordRequired) \<and>
         (email \<noteq> [] \<and> password \<noteq> [] \<and> name = [] \<longrightarrow> r = Inl ErrNameRequired) \<and>
         (email \<noteq> [] \<and> password \<noteq> [] \<and> name \<noteq> [] \<and> \<not> MatchString emailRegex email \<longrightarrow>
            r = Inl ErrInvalidEmail) \<and>
         (email \<noteq> [] \<and> password \<noteq> [] \<and> name \<noteq> [] \<and> MatchString emailRegex email \<longrightarrow>
            (r = Inl ErrPasswordTooShort \<longleftrightarrow> length password < 8)) \<and>
         (length password = 7 \<longrightarrow> isl r) \<and>
         (length password = 8 \<longrightarrow> r \<noteq> Inl ErrPasswordTooShort)"
proof -
  have store: "fst (Register_store bc s e db email password name) \<noteq> Inl ErrPasswordTooShort"
    by (rule Register_store_not_short)
  show ?thesis
    using assms store
    by (auto simp: Register_def Register_check_def minPasswordLength_def not_PasswordTooShort
          split: sum.splits if_splits option.splits)
qed

lemma nomatch_plain: "\<not> MatchString emailRegex ''not-an-email''"
  by (simp add: regex_defs)

theorem Register_validation_witness:
  "fst (Register toyBcrypt someService someEnv noUsers [] ''password1'' ''A'') =
     Inl ErrEmailRequired \<and>
   fst (Register toyBcrypt someService someEnv noUsers ''a@b.com'' [] ''A'') =
     Inl ErrPasswordRequired \<and>
   fst (Register toyBcrypt someService someEnv noUsers ''a@b.com'' ''password1'' []) =
     Inl ErrNameRequired \<and>
   fst (Register toyBcrypt someService someEnv noUsers ''not-an-email'' ''password1'' ''A'') =
     Inl ErrInvalidEmail \<and>
   fst (Register toyBcrypt someService someEnv noUsers ''a@b.com'' ''1234567'' ''A'') =
     Inl ErrPasswordTooShort \<and>
   fst (Register toyBcrypt someService someEnv noUsers ''a@b.com'' ''12345678'' ''A'') \<noteq>
     Inl ErrPasswordTooShort"
proof -
  note v = Register_validation
    [OF refl, where bc = toyBcrypt and s = someService and e = someEnv and db = noUsers]
  have 1: "fst (Register toyBcrypt someService someEnv noUsers [] ''password1'' ''A'') =
      Inl ErrEmailRequired"
    using v [where email = "[]" and password = "''password1''" and name = "''A''"]
    by (simp del: MatchString.simps)
  have 2: "fst (Register toyBcrypt someService someEnv noUsers ''a@b.com'' [] ''A'') =
      Inl ErrPasswordRequired"
    using v [where email = "''a@b.com''" and password = "[]" and name = "''A''"]
    by (simp del: MatchString.simps)
  have 3: "fst (Register toyBcrypt someService someEnv noUsers ''a@b.com'' ''password1'' []) =
      Inl ErrNameRequired"
    using v [where email = "''a@b.com''" and password = "''password1''" and name = "[]"]
    by (simp del: MatchString.simps)
  have 4: "fst (Register toyBcrypt someService someEnv noUsers ''not-an-email'' ''password1'' ''A'') =
      Inl ErrInvalidEmail"
    using v [where email = "''not-an-email''" and password = "''password1''" and name = "''A''"]
    by (simp del: MatchString.simps add: nomatch_plain)
  have 5: "fst (Register toyBcrypt someService someEnv noUsers ''a@b.com'' ''1234567'' ''A'') =
      Inl ErrPasswordTooShort"
    using v [where email = "''a@b.com''" and password = "''1234567''" and name = "''A''"]
    by (simp del: MatchString.simps add: match_ab)
  have 6: "fst (Register toyBcrypt someService someEnv noUsers ''a@b.com'' ''12345678'' ''A'') \<noteq>
      Inl ErrPasswordTooShort"
    using v [where email = "''a@b.com''" and password = "''12345678''" and name = "''A''"]
    by (simp del: MatchString.simps add: match_ab)
  show ?thesis
    using 1 2 3 4 5 6 by blast
qed

text \<open>
  Without the order the clauses do not hold for every input. The empty password has fewer
  than 8 bytes and is answered with \<open>ErrPasswordRequired\<close>, not with
  \<open>ErrPasswordTooShort\<close>; and when the email is empty as well as the password, the answer
  is \<open>ErrEmailRequired\<close>, not \<open>ErrPasswordRequired\<close>.
\<close>

theorem Register_validation_counterexample:
  "length ([] :: string) < 8 \<and>
   fst (Register toyBcrypt someService someEnv noUsers ''a@b.com'' [] ''A'') =
     Inl ErrPasswordRequired \<and>
   ErrPasswordRequired \<noteq> ErrPasswordTooShort \<and>
   fst (Register toyBcrypt someService someEnv noUsers [] [] []) = Inl ErrEmailRequired \<and>
   ErrEmailRequired \<noteq> ErrPasswordRequired"
  by (simp add: Register_def Register_check_def ErrPasswordRequired_def
        ErrPasswordTooShort_def ErrEmailRequired_def)

text \<open>
  Claim C2, as the code has it. For a non-empty email and a non-empty password, \<open>Login\<close>
  answers with the one value \<open>ErrInvalidCredentials\<close> both when the lookup of the email
  gives \<open>ErrUserNotFound\<close> and when it gives a user against whose stored hash the
  password does not verify. (An empty email is answered with \<open>ErrEmailRequired\<close> before
  any lookup.)
\<close>

theorem Login_invalid_credentials:
  assumes "email \<noteq> []" and "password \<noteq> []"
  shows "(UserRepository_FindByEmail db email = Inl ErrUserNotFound \<longrightarrow>
            Login bc s e db email password = Inl ErrInvalidCredentials) \<and>
         (\<forall>user. UserRepository_FindByEmail db email = Inr user \<and>
                 VerifyPassword bc (PasswordHash user) password \<noteq> None \<longrightarrow>
            Login bc s e db email password = Inl ErrInvalidCredentials)"
  using assms by (auto simp: Login_def split: option.splits)

text \<open>
  The scenario of the specification: a wrong password for a registered email, and an
  email nobody registered, get the same error and the same status.
\<close>

theorem Login_invalid_credentials_witness:
  "Login toyBcrypt someService laterEnv aliceUsers ''a@b.com'' ''wrong'' =
     Inl ErrInvalidCredentials \<and>
   Login toyBcrypt someService laterEnv aliceUsers ''missing@b.com'' ''x'' =
     Inl ErrInvalidCredentials \<and>
   LoginStatus (Login toyBcrypt someService laterEnv aliceUsers ''a@b.com'' ''wrong'') = 401 \<and>
   LoginStatus (Login toyBcrypt someService laterEnv aliceUsers ''missing@b.com'' ''x'') = 401"
proof -
  have wrong: "UserRepository_FindByEmail aliceUsers ''a@b.com'' = Inr (hd (docs aliceUsers)) \<and>
      VerifyPassword toyBcrypt (PasswordHash (hd (docs aliceUsers))) ''wrong'' \<noteq> None"
    by (simp add: aliceUsers_def UserRepository_FindByEmail_def FindOne_def VerifyPassword_def
          CompareHashAndPassword_def minHashSize_def toyBcrypt_def toyPrefix_def)
  have missing: "UserRepository_FindByEmail aliceUsers ''missing@b.com'' = Inl ErrUserNotFound"
    by (simp add: aliceUsers_def UserRepository_FindByEmail_def FindOne_def)
  have a: "Login toyBcrypt someService laterEnv aliceUsers ''a@b.com'' ''wrong'' =
      Inl ErrInvalidCredentials"
    using Login_invalid_credentials
      [of "''a@b.com''" "''wrong''" aliceUsers toyBcrypt someService laterEnv] wrong
    by (simp del: One_nat_def)
  have b: "Login toyBcrypt someService laterEnv aliceUsers ''missing@b.com'' ''x'' =
      Inl ErrInvalidCredentials"
    using Login_invalid_credentials
      [of "''missing@b.com''" "''x''" aliceUsers toyBcrypt someService laterEnv] missing
    by simp
  show ?thesis
    by (simp add: a b LoginStatus_def ErrInvalidCredentials_def StatusUnauthorized_def)
qed

text \<open>
  With the empty email the lookup finds nobody, and the answer is \<open>ErrEmailRequired\<close>.
\<close>

theorem Login_invalid_credentials_counterexample:
  "UserRepository_FindByEmail noUsers [] = Inl ErrUserNotFound \<and>
   Login toyBcrypt someService someEnv noUsers [] ''x'' = Inl ErrEmailRequired \<and>
   ErrEmailRequired \<noteq> ErrInvalidCredentials"
  by (simp add: Login_def UserRepository_FindByEmail_def FindOne_def noUsers_def
        ErrEmailRequired_def ErrInvalidCredentials_def)

lemma FindByEmail_NotFound_iff:
  "outage db = None \<Longrightarrow>
   UserRepository_FindByEmail db email = Inl ErrUserNotFound \<longleftrightarrow>
     find (\<lambda>d. Email d = email) (docs db) = None"
  by (auto simp: UserRepository_FindByEmail_def FindOne_def ErrUserNotFound_def ErrNoDocuments_def
      split: option.splits)

lemma FindByEmail_Found_iff:
  "UserRepository_FindByEmail db email = Inr u \<longleftrightarrow>
     outage db = None \<and> find (\<lambda>d. Email d = email) (docs db) = Some u"
  by (auto simp: UserRepository_FindByEmail_def FindOne_def split: option.splits)

lemma Create_ok:
  assumes "UserRepository_Create e db u = (None, u', db')"
  shows "outage db = None \<and> outage db' = None \<and> emailUnique db' = emailUnique db \<and>
         docs db' = docs db @ [u'] \<and> Email u' = Email u \<and> PasswordHash u' = PasswordHash u \<and>
         Name u' = Name u \<and> OAuthProvider u' = OAuthProvider u"
  using assms
  by (auto simp: UserRepository_Create_def InsertOne_def Let_def split: option.splits if_splits)

lemma find_append_new:
  "find P xs = None \<Longrightarrow> P x \<Longrightarrow> find P (xs @ [x]) = Some x"
  by (induction xs) (auto split: if_splits)







section \<open>Accounts created by an OAuth callback\<close>

lemma Itoa_42: "Itoa 42 = ''42''"
  by (simp add: Itoa_def decimal.simps hexdigit_def)



lemma FindByEmail_Email:
  "UserRepository_FindByEmail db email = Inr u \<Longrightarrow> Email u = email"
  by (auto simp: UserRepository_FindByEmail_def FindOne_def find_Some_iff split: option.splits sum.splits if_splits)

lemma issueToken_AuthEmail:
  "issueToken s e u = Inr r \<Longrightarrow> AuthEmail r = Email u"
  by (auto simp: issueToken_def GenerateToken_def Let_def)

lemma Update_ok:
  "UserRepository_Update e db u = (None, u', db') \<Longrightarrow> Email u' = Email u"
  by (auto simp: UserRepository_Update_def Let_def split: sum.splits prod.splits if_splits)

lemma findOrCreate_AuthEmail:
  assumes "findOrCreate s e db email name pid pname = (Inr r, db')"
  shows "AuthEmail r = email"
  using assms
  by (auto simp: findOrCreate_def Let_def split: sum.splits if_splits prod.splits option.splits
        dest!: issueToken_AuthEmail Create_ok Update_ok FindByEmail_Email)

lemma findOrCreate_created:
  assumes "findOrCreate s e db email name pid pname = (Inr r, db')"
      and "UserRepository_FindByEmail db email = Inl ErrUserNotFound"
  shows "\<exists>u. UserRepository_FindByEmail db' email = Inr u \<and> PasswordHash u = []"
proof -
  from assms obtain u u' where c: "UserRepository_Create e db u = (None, u', db')"
    and u: "Email u = email" "PasswordHash u = []"
    by (auto simp: findOrCreate_def Let_def split: if_splits prod.splits option.splits)
  from Create_ok [OF c] have ok: "outage db = None" "outage db' = None" "docs db' = docs db @ [u']"
    "Email u' = Email u" "PasswordHash u' = PasswordHash u" by auto
  from assms(2) ok(1) have "find (\<lambda>d. Email d = email) (docs db) = None"
    by (simp add: FindByEmail_NotFound_iff)
  then have "find (\<lambda>d. Email d = email) (docs db') = Some u'"
    using ok u by (simp add: find_append_new)
  then show ?thesis
    using ok u by (auto simp: FindByEmail_Found_iff)
qed

lemma GitHub_findOrCreate:
  assumes "HandleGitHubCallback gh s e db code = (Inr r, db')"
  shows "\<exists>email name pid. findOrCreate s e db email name pid ''github'' = (Inr r, db')"
  using assms
  by (auto simp: HandleGitHubCallback_def split: if_splits sum.splits)

lemma Google_findOrCreate:
  assumes "HandleGoogleCallback gg s e db code = (Inr r, db')"
  shows "\<exists>email name pid. findOrCreate s e db email name pid ''google'' = (Inr r, db')"
  using assms
  by (auto simp: HandleGoogleCallback_def split: if_splits sum.splits)

lemma Login_empty_hash:
  assumes "email \<noteq> []" "password \<noteq> []" "UserRepository_FindByEmail db email = Inr u"
    "PasswordHash u = []"
  shows "Login bc s e db email password = Inl ErrInvalidCredentials"
  using assms
  by (simp add: Login_def VerifyPassword_def CompareHashAndPassword_def minHashSize_def)

text \<open>
  Claim C10, as the code has it. A callback of either provider that finds no user with the
  resolved email creates one whose password hash is empty. \<open>VerifyPassword\<close> rejects the
  empty hash for every password, since it is shorter than any bcrypt hash; so \<open>Login\<close>
  with that user's email, when it is not empty, and any non-empty password gives
  \<open>ErrInvalidCredentials\<close>, under every service configuration and at every later time.
\<close>

theorem oauth_user_cannot_login:
  assumes "HandleGitHubCallback gh s e db code = (Inr r, db') \<or>
           HandleGoogleCallback gg s e db code = (Inr r, db')"
      and "UserRepository_FindByEmail db (AuthEmail r) = Inl ErrUserNotFound"
      and "AuthEmail r \<noteq> []" and "password \<noteq> []"
  shows "(\<exists>u. UserRepository_FindByEmail db' (AuthEmail r) = Inr u \<and> PasswordHash u = []) \<and>
         Login bc s' e' db' (AuthEmail r) password = Inl ErrInvalidCredentials"
proof -
  have "\<exists>email name pid pname. findOrCreate s e db email name pid pname = (Inr r, db')"
  proof (rule disjE [OF assms(1)])
    assume "HandleGitHubCallback gh s e db code = (Inr r, db')"
    from GitHub_findOrCreate [OF this] show ?thesis by fast
  next
    assume "HandleGoogleCallback gg s e db code = (Inr r, db')"
    from Google_findOrCreate [OF this] show ?thesis by fast
  qed
  then obtain email name pid pname
    where f: "findOrCreate s e db email name pid pname = (Inr r, db')"
    by auto
  from findOrCreate_AuthEmail [OF f] have m: "AuthEmail r = email" .
  from findOrCreate_created [OF f] assms(2) m
  obtain u where u: "UserRepository_FindByEmail db' email = Inr u" "PasswordHash u = []"
    by auto
  from Login_empty_hash [OF _ assms(4) u] assms(3) m
  show ?thesis using u by auto
qed

lemma GitHub_new_user:
  "HandleGitHubCallback someGitHub someService someEnv noUsers ''code'' =
     (Inr \<lparr>Token = Compact ''HS256''
                [(''user_id'', JString (Hex 7)), (''email'', JString ''a@b.com''),
                 (''exp'', JNumber 1700003600)] (Some ''secret''),
           AuthUserID = Hex 7, AuthEmail = ''a@b.com'', AuthName = ''Alice''\<rparr>,
      \<lparr>docs = [\<lparr>ID = 7, Email = ''a@b.com'', PasswordHash = [],
               Name = ''Alice'', AvatarURL = [], OAuthProvider = ''42'', OAuthProviderName = ''github'',
               CreatedAt = 1700000000000000000, UpdatedAt = 1700000000000000000\<rparr>],
      emailUnique = True, outage = None\<rparr>)"
  by (simp add: HandleGitHubCallback_def someGitHub_def exchangeGitHubCodeForToken_def StatusOK_def
        getGitHubUserInfo_def getGitHubUserEmail_def selectGitHubEmail_def findOrCreate_def
        UserRepository_FindByEmail_def FindOne_def noUsers_def UserRepository_Create_def IsZero_def
        InsertOne_def someEnv_def issueToken_def GenerateToken_def someService_def Let_def
        Unix_def Second_def Itoa_42)

theorem oauth_user_cannot_login_witness:
  "Login toyBcrypt someService laterEnv
     (snd (HandleGitHubCallback someGitHub someService someEnv noUsers ''code''))
     ''a@b.com'' ''password1'' = Inl ErrInvalidCredentials"
proof -
  have nf: "UserRepository_FindByEmail noUsers ''a@b.com'' = Inl ErrUserNotFound"
    by (simp add: UserRepository_FindByEmail_def FindOne_def noUsers_def)
  from oauth_user_cannot_login [where gh = someGitHub and s = someService and e = someEnv
      and db = noUsers and code = "''code''" and password = "''password1''" and bc = toyBcrypt
      and s' = someService and e' = laterEnv, OF disjI1, OF GitHub_new_user]
  show ?thesis
    using nf by (simp add: GitHub_new_user)
qed

text \<open>
  The callbacks do not look at the email they are given. A user-info reply with an empty
  email creates a user with the empty email, and \<open>Login\<close> with that email is answered
  with \<open>ErrEmailRequired\<close>.
\<close>

theorem oauth_user_cannot_login_counterexample:
  "map Email (docs (snd (HandleGoogleCallback blankGoogle someService someEnv noUsers ''code''))) = [[]] \<and>
   map PasswordHash (docs (snd (HandleGoogleCallback blankGoogle someService someEnv noUsers ''code''))) = [[]] \<and>
   Login toyBcrypt someService laterEnv
     (snd (HandleGoogleCallback blankGoogle someService someEnv noUsers ''code'')) [] ''password1'' =
     Inl ErrEmailRequired \<and>
   ErrEmailRequired \<noteq> ErrInvalidCredentials"
  by (simp add: HandleGoogleCallback_def blankGoogle_def exchangeCodeForToken_def StatusOK_def
        getUserInfo_def findOrCreate_def
        UserRepository_FindByEmail_def FindOne_def noUsers_def UserRepository_Create_def IsZero_def
        InsertOne_def someEnv_def issueToken_def GenerateToken_def someService_def Let_def
        Login_def ErrEmailRequired_def ErrInvalidCredentials_def)

section \<open>Linking an existing user\<close>


lemma find_SomeD: "find P xs = Some x \<Longrightarrow> P x"
  by (induction xs) (auto split: if_splits)








section \<open>Membership operations\<close>

lemma memberExists_iff: "memberExists ms userID \<longleftrightarrow> userID \<in> UserID ` set ms"
  by (induction ms) auto

lemma updateFirst_found:
  assumes "find (\<lambda>d. CircleID d = oid) ds = Some c" and "CircleID (change c) = oid"
  shows "\<exists>ds'. updateFirst (\<lambda>d. CircleID d = oid) change ds = (1, ds') \<and>
               find (\<lambda>d. CircleID d = oid) ds' = Some (change c)"
  using assms by (induction ds) (auto split: if_splits)

lemma FindByID_Inr:
  "CircleRepository_FindByID db oid = Inr c \<longleftrightarrow>
     circleOutage db = None \<and> find (\<lambda>d. CircleID d = oid) (circleDocs db) = Some c"
  by (auto simp: CircleRepository_FindByID_def FindOneCircle_def split: option.splits)

text \<open>
  Claim C4, as the code has it. \<open>AddMember\<close> does not look at the members the circle
  has: whenever the circle exists it succeeds and appends the entry, also for a user id
  that is present already, so the repository does not keep user ids unique within a
  circle. \<open>RemoveMember\<close> and \<open>UpdateMemberAccess\<close> fail, and leave the collection as it
  is, when the circle has no entry with the user id.
\<close>

theorem membership_operations:
  "(CircleRepository_FindByID db circleID = Inr c \<longrightarrow>
      fst (CircleRepository_AddMember e db circleID member) = None \<and>
      CircleRepository_FindByID (snd (CircleRepository_AddMember e db circleID member)) circleID =
        Inr (c\<lparr>Members := Members c @ [member], CircleUpdatedAt := now e\<rparr>)) \<and>
   ((\<forall>c. CircleRepository_FindByID db circleID = Inr c \<longrightarrow> userID \<notin> UserID ` set (Members c)) \<longrightarrow>
      fst (CircleRepository_RemoveMember e db circleID userID) \<noteq> None \<and>
      snd (CircleRepository_RemoveMember e db circleID userID) = db \<and>
      fst (CircleRepository_UpdateMemberAccess e db circleID userID accessLevel) \<noteq> None \<and>
      snd (CircleRepository_UpdateMemberAccess e db circleID userID accessLevel) = db)"
proof (intro conjI impI)
  assume f: "CircleRepository_FindByID db circleID = Inr c"
  then have o: "circleOutage db = None"
    and c: "find (\<lambda>d. CircleID d = circleID) (circleDocs db) = Some c"
    by (simp_all add: FindByID_Inr)
  let ?change = "\<lambda>d. d\<lparr>Members := Members d @ [member], CircleUpdatedAt := now e\<rparr>"
  from find_SomeD [OF c] have "CircleID (?change c) = circleID"
    by simp
  from updateFirst_found [where change = ?change, OF c this] obtain ds'
    where u: "updateFirst (\<lambda>d. CircleID d = circleID) ?change (circleDocs db) = (1, ds')"
      and f': "find (\<lambda>d. CircleID d = circleID) ds' = Some (?change c)"
    by blast
  show "fst (CircleRepository_AddMember e db circleID member) = None"
    by (simp add: CircleRepository_AddMember_def o u)
  show "CircleRepository_FindByID (snd (CircleRepository_AddMember e db circleID member)) circleID =
        Inr (c\<lparr>Members := Members c @ [member], CircleUpdatedAt := now e\<rparr>)"
    by (simp add: CircleRepository_AddMember_def o u f' FindByID_Inr)
next
  assume a: "\<forall>c. CircleRepository_FindByID db circleID = Inr c \<longrightarrow> userID \<notin> UserID ` set (Members c)"
  then show "fst (CircleRepository_RemoveMember e db circleID userID) \<noteq> None"
    by (auto simp: CircleRepository_RemoveMember_def memberExists_iff split: sum.splits)
  from a show "snd (CircleRepository_RemoveMember e db circleID userID) = db"
    by (auto simp: CircleRepository_RemoveMember_def memberExists_iff split: sum.splits)
  from a show "fst (CircleRepository_UpdateMemberAccess e db circleID userID accessLevel) \<noteq> None"
    by (auto simp: CircleRepository_UpdateMemberAccess_def memberExists_iff split: sum.splits)
  from a show "snd (CircleRepository_UpdateMemberAccess e db circleID userID accessLevel) = db"
    by (auto simp: CircleRepository_UpdateMemberAccess_def memberExists_iff split: sum.splits)
qed

lemma FindByID_someCircle: "CircleRepository_FindByID someCircles 100 = Inr someCircle"
  by (simp add: CircleRepository_FindByID_def FindOneCircle_def someCircles_def someCircle_def)

text \<open>
  The circle has user 2 as a member; adding an entry for user 2 succeeds, and the circle
  then lists user 2 twice.
\<close>

theorem membership_operations_counterexample:
  "memberExists (Members someCircle) (UserID secondEntry) \<and>
   fst (CircleRepository_AddMember laterEnv someCircles 100 secondEntry) = None \<and>
   map UserID (Members (hd (circleDocs
     (snd (CircleRepository_AddMember laterEnv someCircles 100 secondEntry))))) = [2, 2]"
  by (simp add: CircleRepository_AddMember_def someCircles_def someCircle_def secondEntry_def)

theorem membership_operations_witness:
  "fst (CircleRepository_AddMember laterEnv someCircles 100 secondEntry) = None \<and>
   CircleRepository_FindByID (snd (CircleRepository_AddMember laterEnv someCircles 100 secondEntry)) 100 =
     Inr (someCircle\<lparr>Members := Members someCircle @ [secondEntry],
                     CircleUpdatedAt := now laterEnv\<rparr>) \<and>
   CircleRepository_RemoveMember laterEnv someCircles 100 3 =
     (Some (Errorf ''member not found in circle''), someCircles) \<and>
   CircleRepository_UpdateMemberAccess laterEnv someCircles 100 3 AccessLevelEdit =
     (Some (Errorf ''member not found in circle''), someCircles)"
proof -
  have absent: "\<forall>c. CircleRepository_FindByID someCircles 100 = Inr c \<longrightarrow> 3 \<notin> UserID ` set (Members c)"
    by (simp add: FindByID_someCircle) (simp add: someCircle_def)
  note m = membership_operations [where db = someCircles and circleID = 100 and e = laterEnv]
  have a: "fst (CircleRepository_AddMember laterEnv someCircles 100 secondEntry) = None \<and>
      CircleRepository_FindByID (snd (CircleRepository_AddMember laterEnv someCircles 100 secondEntry)) 100 =
        Inr (someCircle\<lparr>Members := Members someCircle @ [secondEntry],
                        CircleUpdatedAt := now laterEnv\<rparr>)"
    using m [where c = someCircle and member = secondEntry, THEN conjunct1] FindByID_someCircle
    by blast
  have b: "fst (CircleRepository_RemoveMember laterEnv someCircles 100 3) \<noteq> None \<and>
      snd (CircleRepository_RemoveMember laterEnv someCircles 100 3) = someCircles \<and>
      fst (CircleRepository_UpdateMemberAccess laterEnv someCircles 100 3 AccessLevelEdit) \<noteq> None \<and>
      snd (CircleRepository_UpdateMemberAccess laterEnv someCircles 100 3 AccessLevelEdit) = someCircles"
    using m [where userID = 3 and accessLevel = AccessLevelEdit, THEN conjunct2] absent
    by blast
  have r: "CircleRepository_RemoveMember laterEnv someCircles 100 3 =
     (Some (Errorf ''member not found in circle''), someCircles)"
    by (simp add: CircleRepository_RemoveMember_def FindByID_someCircle) (simp add: someCircle_def)
  have u: "CircleRepository_UpdateMemberAccess laterEnv someCircles 100 3 AccessLevelEdit =
     (Some (Errorf ''member not found in circle''), someCircles)"
    by (simp add: CircleRepository_UpdateMemberAccess_def FindByID_someCircle) (simp add: someCircle_def)
  show ?thesis
    using a b r u by blast
qed

end
